theory Spec2Isabelle
  imports Complex_Main "HOL-Library.Word"
begin

section \<open>Python values and the runtime library\<close>

text \<open>
  The two handlers of the credential verification pipeline
  (\<^verbatim>\<open>DoctorDiplomaScanner/handler.py\<close> with \<^verbatim>\<open>diploma_scanner.py\<close>, and
  \<^verbatim>\<open>verify-identity/lambda_function.py\<close>) receive JSON-shaped Python values and talk
  to external services. A JSON value is a \<open>json\<close>; a dict is an association list whose
  keys are distinct, looked up with \<open>map_of\<close>.
\<close>

type_synonym bytes = "8 word list"

text \<open>The text that Textract extracts is a Python \<open>str\<close>: a sequence of code points.\<close>

type_synonym ustr = "nat list"

datatype json =
    JNull
  | JBool bool
  | JInt int
  | JReal real
  | JStr string
  | JArr "json list"
  | JObj "(string \<times> json) list"

text \<open>Python truthiness (\<^verbatim>\<open>not user_id\<close>, \<^verbatim>\<open>body['idImage']\<close> as a condition).\<close>

fun truthy :: "json \<Rightarrow> bool" where
  "truthy JNull = False"
| "truthy (JBool b) = b"
| "truthy (JInt i) = (i \<noteq> 0)"
| "truthy (JReal r) = (r \<noteq> 0)"
| "truthy (JStr s) = (s \<noteq> [])"
| "truthy (JArr xs) = (xs \<noteq> [])"
| "truthy (JObj kvs) = (kvs \<noteq> [])"

text \<open>
  Exceptions. \<open>ServiceError\<close> is any error a service client raises (its argument
  identifies it); \<open>InvalidS3ObjectException\<close> is the distinguished error of the
  comparison service.
\<close>

datatype exn =
    KeyError
  | IndexError
  | TypeError
  | AttributeError
  | JSONDecodeError
  | InvalidS3ObjectException
  | ServiceError string

text \<open>
  What the handlers use of the Python runtime and standard library, taken as
  parameters: \<open>str_of\<close> is \<^verbatim>\<open>str(v)\<close> of a value that is not a string (inside an
  f-string), \<open>str_exn\<close> is \<^verbatim>\<open>str(e)\<close>, \<open>json_loads\<close> is \<^verbatim>\<open>json.loads\<close> (\<open>None\<close> when
  it raises), \<open>b64decode\<close> is \<^verbatim>\<open>base64.b64decode\<close> (\<open>None\<close> when it raises),
  \<open>fmt_2f\<close> is the format \<^verbatim>\<open>{x:.2f}\<close>, and \<open>re_word\<close>, \<open>re_imatch\<close> are the regular
  expression engine's Unicode tables beyond ASCII: whether a code point is a word
  character, and whether a lower-cased ASCII pattern letter matches a code point when
  case is ignored.
\<close>

record pylib =
  str_of :: "json \<Rightarrow> string"
  str_exn :: "exn \<Rightarrow> string"
  json_loads :: "string \<Rightarrow> json option"
  b64decode :: "json \<Rightarrow> bytes option"
  fmt_2f :: "real \<Rightarrow> string"
  re_word :: "nat \<Rightarrow> bool"
  re_imatch :: "nat \<Rightarrow> nat \<Rightarrow> bool"

text \<open>A value inside an f-string: a string is itself.\<close>

definition fstr :: "pylib \<Rightarrow> json \<Rightarrow> string" where
  "fstr L v = (case v of JStr s \<Rightarrow> s | _ \<Rightarrow> str_of L v)"

text \<open>\<^verbatim>\<open>v[k]\<close> for a string key and \<^verbatim>\<open>v[0]\<close>; \<open>None\<close> when Python raises.\<close>

definition subscript_key :: "json \<Rightarrow> string \<Rightarrow> json option" where
  "subscript_key v k = (case v of JObj kvs \<Rightarrow> map_of kvs k | _ \<Rightarrow> None)"

definition subscript_0 :: "json \<Rightarrow> json option" where
  "subscript_0 v =
     (case v of
        JArr xs \<Rightarrow> (case xs of [] \<Rightarrow> None | x # _ \<Rightarrow> Some x)
      | JStr s \<Rightarrow> (case s of [] \<Rightarrow> None | c # _ \<Rightarrow> Some (JStr [c]))
      | _ \<Rightarrow> None)"

text \<open>\<^verbatim>\<open>s.split('/')\<close>.\<close>

fun split_on :: "char \<Rightarrow> string \<Rightarrow> string list" where
  "split_on sep [] = [[]]"
| "split_on sep (c # cs) =
     (if c = sep then [] # split_on sep cs
      else (case split_on sep cs of [] \<Rightarrow> [[c]] | p # ps \<Rightarrow> (c # p) # ps))"

section \<open>The document content validator (\<^verbatim>\<open>diploma_scanner.py\<close>)\<close>

text \<open>
  \<^verbatim>\<open>re.search(r'\b' + re.escape(keyword) + r'\b', full_text, re.IGNORECASE)\<close>.
  The keywords are ASCII letters, so \<^verbatim>\<open>re.escape\<close> leaves them as they are. A word
  character is a letter, a digit or the underscore; \<^verbatim>\<open>\b\<close> holds at a position when
  exactly one of the characters before and after it is a word character (the ends of the
  text count as non-word).
\<close>

definition ascii_lower :: "nat \<Rightarrow> nat" where
  "ascii_lower c = (if 65 \<le> c \<and> c \<le> 90 then c + 32 else c)"

definition is_word :: "pylib \<Rightarrow> nat \<Rightarrow> bool" where
  "is_word L c =
     (if c < 128
      then (48 \<le> c \<and> c \<le> 57) \<or> (65 \<le> c \<and> c \<le> 90) \<or> c = 95 \<or> (97 \<le> c \<and> c \<le> 122)
      else re_word L c)"

definition ci_match :: "pylib \<Rightarrow> nat \<Rightarrow> nat \<Rightarrow> bool" where
  "ci_match L p d =
     (if d < 128 then ascii_lower d = ascii_lower p else re_imatch L (ascii_lower p) d)"

definition at_boundary :: "pylib \<Rightarrow> ustr \<Rightarrow> nat \<Rightarrow> bool" where
  "at_boundary L t i =
     ((0 < i \<and> i \<le> length t \<and> is_word L (t ! (i - 1))) \<noteq> (i < length t \<and> is_word L (t ! i)))"

definition match_at :: "pylib \<Rightarrow> nat list \<Rightarrow> ustr \<Rightarrow> nat \<Rightarrow> bool" where
  "match_at L p t i =
     (at_boundary L t i \<and> i + length p \<le> length t \<and>
      list_all2 (ci_match L) p (take (length p) (drop i t)) \<and>
      at_boundary L t (i + length p))"

definition re_search_word :: "pylib \<Rightarrow> string \<Rightarrow> ustr \<Rightarrow> bool" where
  "re_search_word L keyword t =
     list_ex (match_at L (map of_char keyword) t) [0..<Suc (length t)]"

definition required_keywords :: "string list" where
  "required_keywords =
     [''Doctor'', ''Medicine'', ''License'', ''Board'', ''MD'', ''Surgeon'', ''Medical'',
      ''Surgery'', ''Degree'', ''Diploma'']"

text \<open>
  The loop over the keywords, with its two accumulators:
  \<^verbatim>\<open>
  for keyword in required_keywords:
      if re.search(...):
          match_count += 1
          matches_found.append(keyword)
  \<close>
\<close>

fun count_matches :: "pylib \<Rightarrow> ustr \<Rightarrow> string list \<Rightarrow> nat \<times> string list \<Rightarrow> nat \<times> string list" where
  "count_matches L t [] acc = acc"
| "count_matches L t (keyword # ks) (match_count, matches_found) =
     count_matches L t ks
       (if re_search_word L keyword t then (match_count + 1, matches_found @ [keyword])
        else (match_count, matches_found))"

text \<open>\<^verbatim>\<open>" ".join(detected_text)\<close>.\<close>

fun join_space :: "ustr list \<Rightarrow> ustr" where
  "join_space [] = []"
| "join_space [x] = x"
| "join_space (x # y # ys) = x @ [32] @ join_space (y # ys)"

record block =
  BlockType :: string
  Text :: ustr

record textract_response =
  Blocks :: "block list option"

text \<open>
  The dict that \<^verbatim>\<open>scan_diploma\<close> returns; a key that a branch leaves out is \<open>None\<close>.
\<close>

record scan_result =
  status :: string
  message :: "string option"
  verification_passed :: bool
  confidence_matches :: "string list option"
  extracted_text_snippet :: "ustr option"

definition full_text_of :: "textract_response \<Rightarrow> ustr" where
  "full_text_of response =
     join_space
       (case Blocks response of
          None \<Rightarrow> []
        | Some items \<Rightarrow> map Text (filter (\<lambda>item. BlockType item = ''LINE'') items))"

text \<open>
  \<^verbatim>\<open>scan_diploma(bucket_name, file_key)\<close>; the outcome of the Textract call is the
  environment's, \<open>Inl e\<close> when the call raises.
\<close>

definition scan_diploma :: "pylib \<Rightarrow> exn + textract_response \<Rightarrow> scan_result" where
  "scan_diploma L textract_outcome =
     (case textract_outcome of
        Inl e \<Rightarrow>
          \<lparr>status = ''error'', message = Some (str_exn L e), verification_passed = False,
           confidence_matches = None, extracted_text_snippet = None\<rparr>
      | Inr response \<Rightarrow>
          (let full_text = full_text_of response;
               (match_count, matches_found) = count_matches L full_text required_keywords (0, []);
               is_valid = (match_count \<ge> 1)
           in \<lparr>status = ''success'', message = None, verification_passed = is_valid,
                confidence_matches = Some matches_found,
                extracted_text_snippet = Some (take 200 full_text)\<rparr>))"

text \<open>
  The specification's words for the search: the keyword occurs in the text, case ignored,
  as a whole word, that is with no word character next to it on either side.
\<close>

definition occurs_whole_word :: "pylib \<Rightarrow> string \<Rightarrow> ustr \<Rightarrow> bool" where
  "occurs_whole_word L keyword t =
     (\<exists>pre mid post.
        t = pre @ mid @ post \<and>
        list_all2 (ci_match L) (map of_char keyword) mid \<and>
        (pre = [] \<or> \<not> is_word L (last pre)) \<and>
        (post = [] \<or> \<not> is_word L (hd post)))"


section \<open>External services, their calls and the stored state\<close>

text \<open>
  Every call a handler issues to a service is recorded, in order, with its arguments (a
  call that raises is recorded too). The timestamp of the analytics row is left out.
\<close>

datatype call =
    TextractDetect json json
  | GetSecretValue string
  | BigQueryInsert string string string string
  | DbUpdateItem string string json "(string \<times> json) list"
  | SnsPublish string string string
  | S3PutObject string string bytes string
  | S3PutObjectTagging string string "(string \<times> string) list"
  | RekCompareFaces string string bytes real
  | S3PresignedUrl string string nat

text \<open>
  The image bucket (key to object) and the record store (table name and key value to
  item; an item maps attribute names to values).
\<close>

record world =
  s3_objects :: "string \<rightharpoonup> bytes"
  db_items :: "string \<times> json \<rightharpoonup> (string \<rightharpoonup> json)"

text \<open>
  \<^verbatim>\<open>table.update_item(Key={key_field: key_value}, UpdateExpression="set a = :a, ...")\<close>
  when it succeeds: the named attributes are overwritten, every other attribute of the item
  is kept, and an item that does not exist is created. The update carries no condition.
\<close>

definition db_update_item ::
  "world \<Rightarrow> string \<Rightarrow> string \<Rightarrow> json \<Rightarrow> (string \<times> json) list \<Rightarrow> world" where
  "db_update_item w table key_field key_value assignments =
     w\<lparr>db_items := (db_items w)((table, key_value) \<mapsto>
        (case db_items w (table, key_value) of
           None \<Rightarrow> [key_field \<mapsto> key_value]
         | Some item \<Rightarrow> item) ++ map_of assignments)\<rparr>"

datatype body = Raw string | Dumps json

record response =
  statusCode :: nat
  headers :: "(string \<times> string) list option"
  body :: body

text \<open>
  A run of a handler: the response (or the exception that leaves the handler), the state
  afterwards and the calls issued.
\<close>

record run =
  outcome :: "exn + response"
  world_after :: world
  calls :: "call list"

section \<open>The document handler (\<^verbatim>\<open>DoctorDiplomaScanner/handler.py\<close>)\<close>

text \<open>What the services answer during one run; \<open>Some e\<close> and \<open>Inl e\<close> are a call that raises.\<close>

record doc_env =
  textract_outcome :: "exn + textract_response"
  gcp_credentials :: "json option"
  gcp_client_error :: "exn option"
  bigquery_insert :: "exn + json list"
  doctors_update :: "exn option"
  sns_publish :: "exn option"

definition TABLE_NAME :: string where
  "TABLE_NAME = ''mediconnect-doctors''"

definition SNS_TOPIC_ARN :: string where
  "SNS_TOPIC_ARN = ''arn:aws:sns:us-east-1:950110266426:mediconnect-ops-alerts''"

text \<open>
  \<^verbatim>\<open>record_doctor_event\<close> of \<^verbatim>\<open>gcp_bigquery.py\<close>: it catches every exception and
  returns a flag, which the handler ignores.
\<close>

definition record_doctor_event ::
  "pylib \<Rightarrow> doc_env \<Rightarrow> string \<Rightarrow> string \<Rightarrow> string \<Rightarrow> bool \<times> call list" where
  "record_doctor_event L env doctor_id event_type stat =
     (let secret = [GetSecretValue ''mediconnect/gcp/bigquery_key''] in
      case gcp_credentials env of
        None \<Rightarrow> (False, secret)
      | Some creds_dict \<Rightarrow>
          if \<not> truthy creds_dict then (False, secret)
          else (case gcp_client_error env of
                  Some e \<Rightarrow> (False, secret)
                | None \<Rightarrow>
                   (case subscript_key creds_dict ''project_id'' of
                      None \<Rightarrow> (False, secret)
                    | Some project_id \<Rightarrow>
                       (let table_id = fstr L project_id @ ''.mediconnect_analytics.doctor_onboarding_logs'';
                            cs = secret @ [BigQueryInsert table_id doctor_id event_type stat]
                        in case bigquery_insert env of
                             Inl e \<Rightarrow> (False, cs)
                           | Inr errors \<Rightarrow> (errors = [], cs)))))"

text \<open>
  \<^verbatim>\<open>
  record = event['Records'][0]
  s3_bucket = record['s3']['bucket']['name']
  s3_key = record['s3']['object']['key']
  \<close>
  \<open>None\<close> when any of the subscripts raises.
\<close>

definition parse_s3_event :: "json \<Rightarrow> (json \<times> json) option" where
  "parse_s3_event event =
     (case subscript_key event ''Records'' of None \<Rightarrow> None | Some records \<Rightarrow>
     (case subscript_0 records of None \<Rightarrow> None | Some record \<Rightarrow>
     (case subscript_key record ''s3'' of None \<Rightarrow> None | Some s3 \<Rightarrow>
     (case subscript_key s3 ''bucket'' of None \<Rightarrow> None | Some bucket \<Rightarrow>
     (case subscript_key bucket ''name'' of None \<Rightarrow> None | Some s3_bucket \<Rightarrow>
     (case subscript_key s3 ''object'' of None \<Rightarrow> None | Some object \<Rightarrow>
     (case subscript_key object ''key'' of None \<Rightarrow> None | Some s3_key \<Rightarrow>
        Some (s3_bucket, s3_key))))))))"

definition doctor_id_of :: "string \<Rightarrow> string" where
  "doctor_id_of s3_key =
     (let parts = split_on CHR ''/'' s3_key in
      if length parts > 2 \<and> parts ! 1 = ''doctors'' then parts ! 2
      else if length parts > 1 then parts ! 1
      else ''unknown_doc'')"

definition diploma_assignments :: "bool \<Rightarrow> string \<Rightarrow> string \<Rightarrow> (string \<times> json) list" where
  "diploma_assignments v u s =
     [(''isDiplomaAutoVerified'', JBool v), (''diplomaUrl'', JStr u), (''verificationStatus'', JStr s)]"

text \<open>
  Step 4 of the handler, the \<^verbatim>\<open>try\<close> block around the record update and the alert: it
  gives \<^verbatim>\<open>db_message\<close>, the state and the calls.
\<close>

definition tiered_update ::
  "pylib \<Rightarrow> doc_env \<Rightarrow> world \<Rightarrow> string \<Rightarrow> string \<Rightarrow> bool \<Rightarrow> string \<times> world \<times> call list" where
  "tiered_update L env w doctor_id diploma_url scan_passed =
     (if scan_passed then
        (let asg = diploma_assignments True diploma_url ''PENDING_REVIEW'';
             upd = DbUpdateItem TABLE_NAME ''doctorId'' (JStr doctor_id) asg
         in case doctors_update env of
              Some e \<Rightarrow> (''DynamoDB Update Failed: '' @ str_exn L e, w, [upd])
            | None \<Rightarrow>
               (let w' = db_update_item w TABLE_NAME ''doctorId'' (JStr doctor_id) asg;
                    msg = ''ACTION REQUIRED: Doctor '' @ doctor_id @
                      '' has uploaded a diploma. AI Check Passed. Please review and manually approve.'';
                    pub = SnsPublish SNS_TOPIC_ARN msg ''New Doctor Credential Review''
                in case sns_publish env of
                     Some e \<Rightarrow> (''DynamoDB Update Failed: '' @ str_exn L e, w', [upd, pub])
                   | None \<Rightarrow> (''DynamoDB Updated & Admin Alerted'', w', [upd, pub])))
      else
        (let asg = diploma_assignments False diploma_url ''REJECTED_AUTO'';
             upd = DbUpdateItem TABLE_NAME ''doctorId'' (JStr doctor_id) asg
         in case doctors_update env of
              Some e \<Rightarrow> (''DynamoDB Update Failed: '' @ str_exn L e, w, [upd])
            | None \<Rightarrow>
               (''DynamoDB Updated (Auto-Rejected)'',
                db_update_item w TABLE_NAME ''doctorId'' (JStr doctor_id) asg, [upd])))"

text \<open>
  \<^verbatim>\<open>lambda_handler(event, context)\<close> of the document handler. An object key that is not
  a string has no \<^verbatim>\<open>split\<close>: the \<^verbatim>\<open>AttributeError\<close> leaves the handler, after the scan.
\<close>

definition diploma_lambda_handler :: "pylib \<Rightarrow> doc_env \<Rightarrow> world \<Rightarrow> json \<Rightarrow> run" where
  "diploma_lambda_handler L env w event =
     (case parse_s3_event event of
        None \<Rightarrow>
          \<lparr>outcome = Inr \<lparr>statusCode = 400, headers = None, body = Raw ''Invalid Event''\<rparr>,
           world_after = w, calls = []\<rparr>
      | Some (s3_bucket, s3_key) \<Rightarrow>
          (let scan_result = scan_diploma L (textract_outcome env);
               c1 = [TextractDetect s3_bucket s3_key]
           in case s3_key of
                JStr key_str \<Rightarrow>
                  (let doctor_id = doctor_id_of key_str;
                       scan_passed = verification_passed scan_result;
                       scan_status = (if scan_passed then ''passed'' else ''failed'');
                       c2 = snd (record_doctor_event L env doctor_id ''diploma_verification'' scan_status);
                       diploma_url = ''s3://'' @ fstr L s3_bucket @ ''/'' @ key_str;
                       (db_message, w', c3) = tiered_update L env w doctor_id diploma_url scan_passed
                   in \<lparr>outcome = Inr \<lparr>statusCode = 200, headers = None,
                          body = Dumps (JObj [(''message'', JStr ''Processed''),
                                              (''doctor_id'', JStr doctor_id),
                                              (''scan_passed'', JBool scan_passed),
                                              (''db_status'', JStr db_message)])\<rparr>,
                        world_after = w', calls = c1 @ c2 @ c3\<rparr>)
              | _ \<Rightarrow> \<lparr>outcome = Inl AttributeError, world_after = w, calls = c1\<rparr>))"

section \<open>The identity handler (\<^verbatim>\<open>verify-identity/lambda_function.py\<close>)\<close>

record face_match =
  Similarity :: real

record identity_env =
  put_id_card :: "exn option"
  tag_id_card :: "exn option"
  compare_faces :: "exn + face_match list"
  put_selfie :: "exn option"
  presigned_url :: "exn + string"
  profile_update :: "exn option"

definition BUCKET_NAME :: string where
  "BUCKET_NAME = ''mediconnect-identity-verification''"

definition cors_headers :: "(string \<times> string) list" where
  "cors_headers =
     [(''Access-Control-Allow-Origin'', ''*''),
      (''Access-Control-Allow-Headers'', ''Content-Type,Authorization''),
      (''Access-Control-Allow-Methods'', ''OPTIONS,POST'')]"

definition reply :: "nat \<Rightarrow> body \<Rightarrow> response" where
  "reply code b = \<lparr>statusCode = code, headers = Some cors_headers, body = b\<rparr>"

definition finish :: "response \<Rightarrow> world \<Rightarrow> call list \<Rightarrow> run" where
  "finish r w cs = \<lparr>outcome = Inr r, world_after = w, calls = cs\<rparr>"

text \<open>The outer \<^verbatim>\<open>except Exception as e\<close>: status 500 with the exception's text.\<close>

definition server_error :: "pylib \<Rightarrow> exn \<Rightarrow> world \<Rightarrow> call list \<Rightarrow> run" where
  "server_error L e w cs =
     finish (reply 500 (Dumps (JStr (''Server Error: '' @ str_exn L e)))) w cs"

text \<open>
  \<^verbatim>\<open>
  raw_role = body.get('role', 'patient')
  user_role = 'doctor' if raw_role == 'provider' else raw_role
  table_name = "mediconnect-doctors" if user_role == 'doctor' else "mediconnect-patients"
  id_key_field = 'doctorId' if user_role == 'doctor' else 'patientId'
  \<close>
\<close>

definition raw_role_of :: "(string \<times> json) list \<Rightarrow> json" where
  "raw_role_of b = (case map_of b ''role'' of None \<Rightarrow> JStr ''patient'' | Some v \<Rightarrow> v)"

definition user_role_of :: "json \<Rightarrow> json" where
  "user_role_of raw_role = (if raw_role = JStr ''provider'' then JStr ''doctor'' else raw_role)"

definition table_name_of :: "json \<Rightarrow> string" where
  "table_name_of user_role =
     (if user_role = JStr ''doctor'' then ''mediconnect-doctors'' else ''mediconnect-patients'')"

definition id_key_field_of :: "json \<Rightarrow> string" where
  "id_key_field_of user_role = (if user_role = JStr ''doctor'' then ''doctorId'' else ''patientId'')"

text \<open>
  \<^verbatim>\<open>
  body = json.loads(event['body']) if isinstance(event.get('body'), str)
         else event.get('body', {})
  \<close>
\<close>

definition parse_body :: "pylib \<Rightarrow> (string \<times> json) list \<Rightarrow> exn + json" where
  "parse_body L ev =
     (case map_of ev ''body'' of
        None \<Rightarrow> Inr (JObj [])
      | Some v \<Rightarrow>
         (case v of
            JStr s \<Rightarrow> (case json_loads L s of None \<Rightarrow> Inl JSONDecodeError | Some b \<Rightarrow> Inr b)
          | _ \<Rightarrow> Inr v))"

text \<open>
  The upload of the ID card, when the request carries one: \<open>Inl\<close> is the early return
  (status 500), \<open>Inr\<close> the state and the calls after the step.
\<close>

definition save_id_card ::
  "pylib \<Rightarrow> identity_env \<Rightarrow> world \<Rightarrow> (string \<times> json) list \<Rightarrow> string \<Rightarrow> run + world \<times> call list" where
  "save_id_card L env w b id_card_key =
     (case map_of b ''idImage'' of
        None \<Rightarrow> Inr (w, [])
      | Some id_image \<Rightarrow>
         if \<not> truthy id_image then Inr (w, [])
         else
          (let failed = reply 500 (Dumps (JStr ''Failed to save ID card to S3.'')) in
           case b64decode L id_image of
             None \<Rightarrow> Inl (finish failed w [])
           | Some id_bytes \<Rightarrow>
              (let put = S3PutObject BUCKET_NAME id_card_key id_bytes ''image/jpeg'';
                   tag = S3PutObjectTagging BUCKET_NAME id_card_key [(''auto-delete'', ''true'')]
               in case put_id_card env of
                    Some e \<Rightarrow> Inl (finish failed w [put])
                  | None \<Rightarrow>
                     (let w' = w\<lparr>s3_objects := (s3_objects w)(id_card_key \<mapsto> id_bytes)\<rparr>
                      in case tag_id_card env of
                           Some e \<Rightarrow> Inl (finish failed w' [put, tag])
                         | None \<Rightarrow> Inr (w', [put, tag])))))"

text \<open>
  The comparison service is external. As its interface says, it answers with its
  distinguished error when the reference key does not exist in the image store; otherwise
  its answer, the face pairs it returns or an error, is the environment's.
\<close>

definition rekognition_compare_faces :: "identity_env \<Rightarrow> world \<Rightarrow> string \<Rightarrow> exn + face_match list" where
  "rekognition_compare_faces env w source_key =
     (if s3_objects w source_key = None then Inl InvalidS3ObjectException else compare_faces env)"

text \<open>
  Step 4: \<open>None\<close> is the early return with status 404, otherwise
  \<^verbatim>\<open>(verification_result, confidence, message)\<close>.
\<close>

definition run_rekognition ::
  "pylib \<Rightarrow> exn + face_match list \<Rightarrow> (bool \<times> json \<times> string) option" where
  "run_rekognition L answer =
     (case answer of
        Inr face_matches \<Rightarrow>
          (case face_matches of
             [] \<Rightarrow> Some (False, JInt 0, ''Face does not match the provided ID card.'')
           | match # _ \<Rightarrow>
               Some (True, JReal (Similarity match),
                     ''Identity Verified. Confidence: '' @ fmt_2f L (Similarity match) @ ''%''))
      | Inl e \<Rightarrow>
          if e = InvalidS3ObjectException then None
          else Some (False, JInt 0, ''Face comparison failed. Ensure images are clear.''))"

definition identity_assignments :: "string \<Rightarrow> json \<Rightarrow> (string \<times> json) list" where
  "identity_assignments selfie_key user_role =
     [(''avatar'', JStr selfie_key), (''isIdentityVerified'', JBool True),
      (''verificationStatus'',
         JStr (if user_role = JStr ''doctor'' then ''PENDING_REVIEW'' else ''VERIFIED''))]"

definition verdict :: "bool \<Rightarrow> json \<Rightarrow> string \<Rightarrow> json \<Rightarrow> response" where
  "verdict verification_result confidence msg photo_url =
     reply 200 (Dumps (JObj [(''verified'', JBool verification_result),
                             (''confidence'', confidence),
                             (''message'', JStr msg),
                             (''photoUrl'', photo_url)]))"

text \<open>
  Step 5, when the comparison verified the selfie. \<^verbatim>\<open>db_status\<close> is assigned in both
  branches of the inner \<^verbatim>\<open>try\<close> and never read afterwards, so it is no part of the
  result.
\<close>

definition update_profile ::
  "pylib \<Rightarrow> identity_env \<Rightarrow> world \<Rightarrow> call list \<Rightarrow> json \<Rightarrow> json \<Rightarrow> bytes \<Rightarrow> json \<Rightarrow> string \<Rightarrow> run" where
  "update_profile L env w cs user_role user_id selfie_bytes confidence msg =
     (let selfie_key = fstr L user_role @ ''/'' @ fstr L user_id @ ''/selfie_verified.jpg'';
          put = S3PutObject BUCKET_NAME selfie_key selfie_bytes ''image/jpeg''
      in case put_selfie env of
           Some e \<Rightarrow> server_error L e w (cs @ [put])
         | None \<Rightarrow>
            (let w1 = w\<lparr>s3_objects := (s3_objects w)(selfie_key \<mapsto> selfie_bytes)\<rparr>;
                 sign = S3PresignedUrl BUCKET_NAME selfie_key 3600
             in case presigned_url env of
                  Inl e \<Rightarrow> server_error L e w1 (cs @ [put, sign])
                | Inr secure_url_for_frontend \<Rightarrow>
                   (let asg = identity_assignments selfie_key user_role;
                        upd = DbUpdateItem (table_name_of user_role) (id_key_field_of user_role) user_id asg;
                        w2 = (case profile_update env of
                                Some e \<Rightarrow> w1
                              | None \<Rightarrow>
                                 db_update_item w1 (table_name_of user_role)
                                   (id_key_field_of user_role) user_id asg)
                    in finish (verdict True confidence msg (JStr secure_url_for_frontend)) w2
                         (cs @ [put, sign, upd]))))"

text \<open>The body of the outer \<^verbatim>\<open>try\<close>, once \<^verbatim>\<open>body\<close> is a dict.\<close>

definition verify_identity ::
  "pylib \<Rightarrow> identity_env \<Rightarrow> world \<Rightarrow> (string \<times> json) list \<Rightarrow> run" where
  "verify_identity L env w b =
     (let user_id = (case map_of b ''userId'' of None \<Rightarrow> JNull | Some v \<Rightarrow> v) in
      if \<not> truthy user_id then finish (reply 400 (Dumps (JStr ''Missing userId''))) w []
      else
       (let user_role = user_role_of (raw_role_of b) in
        case map_of b ''selfieImage'' of
          None \<Rightarrow> finish (reply 400 (Dumps (JStr ''No selfieImage provided''))) w []
        | Some selfie \<Rightarrow>
           (case b64decode L selfie of
              None \<Rightarrow> finish (reply 400 (Dumps (JStr ''Invalid Selfie Base64''))) w []
            | Some selfie_bytes \<Rightarrow>
               (let id_card_key = fstr L user_role @ ''/'' @ fstr L user_id @ ''/id_card.jpg'' in
                case save_id_card L env w b id_card_key of
                  Inl early \<Rightarrow> early
                | Inr (w1, c1) \<Rightarrow>
                   (let c2 = c1 @ [RekCompareFaces BUCKET_NAME id_card_key selfie_bytes 80] in
                    case run_rekognition L (rekognition_compare_faces env w1 id_card_key) of
                      None \<Rightarrow>
                        finish (reply 404 (Dumps (JStr ''ID Document missing. Please ensure ID is uploaded.'')))
                          w1 c2
                    | Some (verification_result, confidence, msg) \<Rightarrow>
                        if verification_result
                        then update_profile L env w1 c2 user_role user_id selfie_bytes confidence msg
                        else finish (verdict False confidence msg JNull) w1 c2)))))"

text \<open>
  \<^verbatim>\<open>lambda_handler(event, context)\<close> of the identity handler. \<^verbatim>\<open>event.get\<close> is called
  before the \<^verbatim>\<open>try\<close>, so an event that is not a dict raises out of the handler; a body
  that is not a dict has no \<^verbatim>\<open>get\<close>, which the outer \<^verbatim>\<open>except\<close> turns into status 500.
\<close>

definition identity_lambda_handler :: "pylib \<Rightarrow> identity_env \<Rightarrow> world \<Rightarrow> json \<Rightarrow> run" where
  "identity_lambda_handler L env w event =
     (case event of
        JObj ev \<Rightarrow>
          if map_of ev ''httpMethod'' = Some (JStr ''OPTIONS'')
          then finish (reply 200 (Raw [])) w []
          else (case parse_body L ev of
                  Inl e \<Rightarrow> server_error L e w []
                | Inr parsed \<Rightarrow>
                   (case parsed of
                      JObj b \<Rightarrow> verify_identity L env w b
                    | _ \<Rightarrow> server_error L AttributeError w []))
      | _ \<Rightarrow> \<lparr>outcome = Inl AttributeError, world_after = w, calls = []\<rparr>)"

section \<open>Notions of the specification\<close>

text \<open>The \<^verbatim>\<open>verificationStatus\<close> stored for a subject, if any.\<close>

definition status_of :: "world \<Rightarrow> string \<Rightarrow> json \<Rightarrow> json option" where
  "status_of w table key_value =
     (case db_items w (table, key_value) of
        None \<Rightarrow> None
      | Some item \<Rightarrow> item ''verificationStatus'')"

text \<open>
  The tiers along which the specification orders the statuses: \<^verbatim>\<open>UNVERIFIED\<close> (and no
  status), then \<^verbatim>\<open>REJECTED_AUTO\<close> and \<^verbatim>\<open>PENDING_REVIEW\<close>, then \<^verbatim>\<open>VERIFIED\<close> and
  \<^verbatim>\<open>OFFICER_APPROVED\<close>.
\<close>

definition tier :: "json option \<Rightarrow> nat" where
  "tier s =
     (if s = Some (JStr ''VERIFIED'') \<or> s = Some (JStr ''OFFICER_APPROVED'') then 2
      else if s = Some (JStr ''PENDING_REVIEW'') \<or> s = Some (JStr ''REJECTED_AUTO'') then 1
      else 0)"

text \<open>
  A request that passes the identity handler's input checks: the event is a dict and no
  preflight, its body is (or parses to) the dict \<open>b\<close>, \<^verbatim>\<open>userId\<close> is present and truthy,
  and \<^verbatim>\<open>selfieImage\<close> is present and decodes to \<open>selfie_bytes\<close>.
\<close>

definition well_formed_request ::
  "pylib \<Rightarrow> json \<Rightarrow> (string \<times> json) list \<Rightarrow> json \<Rightarrow> bytes \<Rightarrow> bool" where
  "well_formed_request L event b user_id selfie_bytes =
     (\<exists>ev selfie.
        event = JObj ev \<and> map_of ev ''httpMethod'' \<noteq> Some (JStr ''OPTIONS'') \<and>
        parse_body L ev = Inr (JObj b) \<and>
        map_of b ''userId'' = Some user_id \<and> truthy user_id \<and>
        map_of b ''selfieImage'' = Some selfie \<and> b64decode L selfie = Some selfie_bytes)"

text \<open>The reference key and the avatar key of a request.\<close>

definition id_card_key_of :: "pylib \<Rightarrow> (string \<times> json) list \<Rightarrow> json \<Rightarrow> string" where
  "id_card_key_of L b user_id =
     fstr L (user_role_of (raw_role_of b)) @ ''/'' @ fstr L user_id @ ''/id_card.jpg''"

definition selfie_key_of :: "pylib \<Rightarrow> (string \<times> json) list \<Rightarrow> json \<Rightarrow> string" where
  "selfie_key_of L b user_id =
     fstr L (user_role_of (raw_role_of b)) @ ''/'' @ fstr L user_id @ ''/selfie_verified.jpg''"


text \<open>No ID image comes with the request: the key is absent or its value is falsy.\<close>

definition no_id_image :: "(string \<times> json) list \<Rightarrow> bool" where
  "no_id_image b = (case map_of b ''idImage'' of None \<Rightarrow> True | Some v \<Rightarrow> \<not> truthy v)"

text \<open>
  What the caller receives from a run: the status code and the body of the response, or
  nothing when an exception leaves the handler.
\<close>

definition answer_of :: "run \<Rightarrow> (nat \<times> body) option" where
  "answer_of r = (case outcome r of Inl e \<Rightarrow> None | Inr resp \<Rightarrow> Some (statusCode resp, body resp))"

definition is_db_update :: "call \<Rightarrow> bool" where
  "is_db_update c = (case c of DbUpdateItem table key_field key_value asg \<Rightarrow> True | _ \<Rightarrow> False)"

definition is_sns_publish :: "call \<Rightarrow> bool" where
  "is_sns_publish c = (case c of SnsPublish topic msg subj \<Rightarrow> True | _ \<Rightarrow> False)"

section \<open>Concrete runs\<close>

text \<open>
  An instance of the library for the examples. Its \<open>b64decode\<close> agrees with
  \<^verbatim>\<open>base64.b64decode\<close> on the inputs the examples use: \<^verbatim>\<open>"AAAA"\<close> is three zero
  bytes, \<^verbatim>\<open>"/9j/"\<close> is \<^verbatim>\<open>ff d8 ff\<close>, \<^verbatim>\<open>"!!!!"\<close> is the empty byte string (the
  decoder discards the characters outside the alphabet and does not raise), and \<^verbatim>\<open>"A"\<close>
  raises (incorrect padding). Its \<open>fmt_2f\<close> is right on the two similarities of the
  examples. Its Unicode tables are empty: the example texts are ASCII.
\<close>

definition lib0 :: pylib where
  "lib0 =
     \<lparr>str_of = (\<lambda>v. ''None''),
      str_exn = (\<lambda>e. case e of ServiceError s \<Rightarrow> s | _ \<Rightarrow> ''error''),
      json_loads = (\<lambda>s. None),
      b64decode = (\<lambda>v. if v = JStr ''AAAA'' then Some [0, 0, 0]
                         else if v = JStr ''/9j/'' then Some [255, 216, 255]
                         else if v = JStr ''!!!!'' then Some [] else None),
      fmt_2f = (\<lambda>x. if x = 79.5 then ''79.50'' else ''92.50''),
      re_word = (\<lambda>c. False),
      re_imatch = (\<lambda>p d. False)\<rparr>"

text \<open>
  A record store with an officer-approved doctor \<^verbatim>\<open>d1\<close> and a verified patient
  \<^verbatim>\<open>p1\<close>, and an empty image bucket.
\<close>

definition world0 :: world where
  "world0 =
     \<lparr>s3_objects = Map.empty,
      db_items =
        [(''mediconnect-doctors'', JStr ''d1'') \<mapsto>
           [''doctorId'' \<mapsto> JStr ''d1'', ''verificationStatus'' \<mapsto> JStr ''OFFICER_APPROVED''],
         (''mediconnect-patients'', JStr ''p1'') \<mapsto>
           [''patientId'' \<mapsto> JStr ''p1'', ''verificationStatus'' \<mapsto> JStr ''VERIFIED'']]\<rparr>"

text \<open>The upload event for \<^verbatim>\<open>private/doctors/d1/diploma.png\<close>.\<close>

definition upload_event :: json where
  "upload_event =
     JObj [(''Records'', JArr [JObj [(''s3'',
        JObj [(''bucket'', JObj [(''name'', JStr ''mediconnect-uploads'')]),
              (''object'', JObj [(''key'', JStr ''private/doctors/d1/diploma.png'')])])]])]"

definition line_block :: "string \<Rightarrow> block" where
  "line_block s = \<lparr>BlockType = ''LINE'', Text = map of_char s\<rparr>"

text \<open>Three document runs: a passing scan, a failing scan, and Textract raising.\<close>

definition env_pass :: doc_env where
  "env_pass =
     \<lparr>textract_outcome = Inr \<lparr>Blocks = Some [line_block ''Jane Roe md,'', line_block ''Doctor'']\<rparr>,
      gcp_credentials = None, gcp_client_error = None, bigquery_insert = Inr [],
      doctors_update = None, sns_publish = None\<rparr>"

definition env_cat :: doc_env where
  "env_cat =
     \<lparr>textract_outcome = Inr \<lparr>Blocks = Some [line_block ''a cat'']\<rparr>,
      gcp_credentials = None, gcp_client_error = None, bigquery_insert = Inr [],
      doctors_update = None, sns_publish = None\<rparr>"

definition env_textract_down :: doc_env where
  "env_textract_down =
     \<lparr>textract_outcome = Inl (ServiceError ''AccessDeniedException''),
      gcp_credentials = None, gcp_client_error = None, bigquery_insert = Inr [],
      doctors_update = None, sns_publish = None\<rparr>"

text \<open>Identity requests: for the patient \<^verbatim>\<open>p1\<close> with no role field, and for the doctor \<^verbatim>\<open>d1\<close>.\<close>

definition request_no_role :: json where
  "request_no_role =
     JObj [(''httpMethod'', JStr ''POST''),
           (''body'', JObj [(''userId'', JStr ''p1''), (''selfieImage'', JStr ''AAAA''),
                            (''idImage'', JStr ''/9j/'')])]"


definition request_doctor :: json where
  "request_doctor =
     JObj [(''httpMethod'', JStr ''POST''),
           (''body'', JObj [(''userId'', JStr ''d1''), (''role'', JStr ''provider''),
                            (''selfieImage'', JStr ''AAAA''), (''idImage'', JStr ''/9j/'')])]"

definition env_match :: identity_env where
  "env_match =
     \<lparr>put_id_card = None, tag_id_card = None,
      compare_faces = Inr [\<lparr>Similarity = 92.5\<rparr>],
      put_selfie = None, presigned_url = Inr ''https://signed.example/selfie'',
      profile_update = None\<rparr>"





definition env_compare_fails :: identity_env where
  "env_compare_fails = env_match\<lparr>compare_faces := Inl (ServiceError ''InvalidParameterException'')\<rparr>"

text \<open>
  More requests: with an explicit role for the patient \<^verbatim>\<open>p1\<close> and for the doctor
  \<^verbatim>\<open>d2\<close>, who is not in the record store; with a selfie that is no base64 text; a
  preflight; and one whose body is a list.
\<close>

definition request_patient :: json where
  "request_patient =
     JObj [(''httpMethod'', JStr ''POST''),
           (''body'', JObj [(''role'', JStr ''patient''), (''userId'', JStr ''p1''),
                            (''selfieImage'', JStr ''AAAA''), (''idImage'', JStr ''/9j/'')])]"


definition request_bad_selfie :: json where
  "request_bad_selfie =
     JObj [(''httpMethod'', JStr ''POST''),
           (''body'', JObj [(''userId'', JStr ''p1''), (''role'', JStr ''patient''),
                            (''selfieImage'', JStr ''!!!!''), (''idImage'', JStr ''/9j/'')])]"

definition request_preflight :: json where
  "request_preflight = JObj [(''httpMethod'', JStr ''OPTIONS'')]"

definition request_list_body :: json where
  "request_list_body = JObj [(''httpMethod'', JStr ''POST''), (''body'', JArr [])]"

text \<open>An upload event whose object key is a number.\<close>

definition upload_event_number_key :: json where
  "upload_event_number_key =
     JObj [(''Records'', JArr [JObj [(''s3'',
        JObj [(''bucket'', JObj [(''name'', JStr ''mediconnect-uploads'')]),
              (''object'', JObj [(''key'', JInt 5)])])]])]"

section \<open>The validator searches for whole words\<close>

lemma count_matches_filter:
  "count_matches L t ks (n, ms) =
     (n + length (filter (\<lambda>k. re_search_word L k t) ks),
      ms @ filter (\<lambda>k. re_search_word L k t) ks)"
  by (induction ks arbitrary: n ms) auto

text \<open>
  A code point that matches an ASCII letter with case ignored is a word character,
  provided the Unicode tables say so beyond ASCII.
\<close>

lemma ci_match_word:
  assumes "(65 \<le> p \<and> p \<le> 90) \<or> (97 \<le> p \<and> p \<le> 122)" "ci_match L p d"
    "\<forall>q e. re_imatch L q e \<longrightarrow> re_word L e"
  shows "is_word L d"
  using assms by (auto simp: ci_match_def is_word_def ascii_lower_def split: if_splits)

lemma keywords_are_letters:
  "\<forall>k\<in>set required_keywords. k \<noteq> [] \<and>
     (\<forall>c\<in>set k. (65 \<le> (of_char c :: nat) \<and> (of_char c :: nat) \<le> 90) \<or>
                  (97 \<le> (of_char c :: nat) \<and> (of_char c :: nat) \<le> 122))"
  by (simp add: required_keywords_def)

lemma list_all2_ci_word:
  assumes "list_all2 (ci_match L) ps ds"
    "\<forall>p\<in>set ps. (65 \<le> p \<and> p \<le> 90) \<or> (97 \<le> p \<and> p \<le> 122)"
    "\<forall>q e. re_imatch L q e \<longrightarrow> re_word L e"
  shows "\<forall>d\<in>set ds. is_word L d"
  using assms(1,2)
  by (induction rule: list_all2_induct) (auto intro: ci_match_word[OF _ _ assms(3)])

lemma match_at_imp_occurs:
  assumes m: "match_at L p t i" and ne: "p \<noteq> []"
    and ltr: "\<forall>c\<in>set p. (65 \<le> c \<and> c \<le> 90) \<or> (97 \<le> c \<and> c \<le> 122)"
    and tab: "\<forall>q e. re_imatch L q e \<longrightarrow> re_word L e"
  shows "\<exists>pre mid post. t = pre @ mid @ post \<and> list_all2 (ci_match L) p mid \<and>
          (pre = [] \<or> \<not> is_word L (last pre)) \<and> (post = [] \<or> \<not> is_word L (hd post))"
proof -
  let ?n = "length p"
  let ?mid = "take ?n (drop i t)"
  from m have b1: "at_boundary L t i" and len: "i + ?n \<le> length t"
    and all2: "list_all2 (ci_match L) p ?mid" and b2: "at_boundary L t (i + ?n)"
    by (simp_all add: match_at_def)
  from ne have n0: "0 < ?n" by simp
  have w: "\<forall>d\<in>set ?mid. is_word L d"
    using list_all2_ci_word[OF all2 ltr tab] .
  have lm: "length ?mid = ?n" using len by simp
  have first: "is_word L (t ! i)"
  proof -
    have "?mid ! 0 = t ! i" using n0 len by simp
    moreover have "?mid ! 0 \<in> set ?mid" using lm n0 by (metis nth_mem)
    ultimately show ?thesis using w by metis
  qed
  have lastw: "is_word L (t ! (i + ?n - 1))"
  proof -
    have "?mid ! (?n - 1) = t ! (i + (?n - 1))" using n0 len by simp
    moreover have "?mid ! (?n - 1) \<in> set ?mid"
      using lm n0 by (metis diff_less nth_mem zero_less_one)
    ultimately show ?thesis
      using w n0 by (metis Nat.add_diff_assoc Suc_leI One_nat_def)
  qed
  have t: "t = take i t @ ?mid @ drop (i + ?n) t"
    by (metis append_take_drop_id drop_drop add.commute)
  have pre: "take i t = [] \<or> \<not> is_word L (last (take i t))"
  proof (cases "i = 0")
    case True
    then show ?thesis by simp
  next
    case False
    with b1 first len n0 have nw: "\<not> is_word L (t ! (i - 1))"
      by (auto simp: at_boundary_def)
    have lt: "i < length t" using len n0 by linarith
    then have tne: "take i t \<noteq> []" using False by auto
    from lt have "length (take i t) = i" by simp
    then have "take i t ! (length (take i t) - 1) = t ! (i - 1)" using False by simp
    then have "last (take i t) = t ! (i - 1)" using last_conv_nth[OF tne] by metis
    with nw show ?thesis by simp
  qed
  have post: "drop (i + ?n) t = [] \<or> \<not> is_word L (hd (drop (i + ?n) t))"
  proof (cases "i + ?n < length t")
    case False
    then show ?thesis by simp
  next
    case True
    with b2 lastw n0 have "\<not> is_word L (t ! (i + ?n))"
      by (auto simp: at_boundary_def)
    moreover have "hd (drop (i + ?n) t) = t ! (i + ?n)"
      using True by (simp add: hd_drop_conv_nth)
    ultimately show ?thesis by simp
  qed
  from t all2 pre post show ?thesis by blast
qed

lemma occurs_imp_match_at:
  assumes t: "t = pre @ mid @ post" and all2: "list_all2 (ci_match L) p mid"
    and pre: "pre = [] \<or> \<not> is_word L (last pre)"
    and post: "post = [] \<or> \<not> is_word L (hd post)"
    and ne: "p \<noteq> []"
    and ltr: "\<forall>c\<in>set p. (65 \<le> c \<and> c \<le> 90) \<or> (97 \<le> c \<and> c \<le> 122)"
    and tab: "\<forall>q e. re_imatch L q e \<longrightarrow> re_word L e"
  shows "match_at L p t (length pre)"
proof -
  have lm: "length mid = length p" using all2 by (simp add: list_all2_lengthD)
  have w: "\<forall>d\<in>set mid. is_word L d" using list_all2_ci_word[OF all2 ltr tab] .
  from ne lm have mne: "mid \<noteq> []" by auto
  have hdw: "is_word L (hd mid)" and lastw: "is_word L (last mid)"
    using w mne by simp_all
  have ti: "t ! length pre = hd mid"
    using t mne by (simp add: nth_append hd_conv_nth)
  have b1: "at_boundary L t (length pre)"
  proof -
    have "\<not> (0 < length pre \<and> is_word L (t ! (length pre - 1)))"
      using pre t by (auto simp: nth_append last_conv_nth)
    moreover have "length pre < length t" using t mne by simp
    ultimately show ?thesis using hdw ti by (simp add: at_boundary_def)
  qed
  have tl: "t ! (length pre + length p - 1) = last mid"
  proof -
    have "length pre + length p - 1 = length pre + (length mid - 1)"
      using lm mne by (cases mid) auto
    moreover have "t ! (length pre + (length mid - 1)) = mid ! (length mid - 1)"
      using t mne by (simp add: nth_append)
    ultimately show ?thesis using mne by (simp add: last_conv_nth)
  qed
  have b2: "at_boundary L t (length pre + length p)"
  proof -
    have "\<not> (length pre + length p < length t \<and> is_word L (t ! (length pre + length p)))"
      using post t lm by (auto simp: nth_append hd_conv_nth)
    moreover have "length pre + length p \<le> length t" "0 < length pre + length p"
      using t lm mne ne by simp_all
    ultimately show ?thesis using lastw tl by (simp add: at_boundary_def)
  qed
  have "take (length p) (drop (length pre) t) = mid" using t lm by simp
  with b1 b2 all2 t lm show ?thesis by (simp add: match_at_def)
qed

lemma re_search_word_iff:
  assumes ne: "keyword \<noteq> []"
    and ltr: "\<forall>c\<in>set keyword. (65 \<le> (of_char c :: nat) \<and> (of_char c :: nat) \<le> 90) \<or>
                (97 \<le> (of_char c :: nat) \<and> (of_char c :: nat) \<le> 122)"
    and tab: "\<forall>q e. re_imatch L q e \<longrightarrow> re_word L e"
  shows "re_search_word L keyword t = occurs_whole_word L keyword t"
proof
  assume "re_search_word L keyword t"
  then obtain i where "match_at L (map of_char keyword) t i"
    by (auto simp: re_search_word_def list_ex_iff)
  from match_at_imp_occurs[OF this _ _ tab] ne ltr
  show "occurs_whole_word L keyword t" by (simp add: occurs_whole_word_def)
next
  assume "occurs_whole_word L keyword t"
  then obtain pre mid post where d: "t = pre @ mid @ post"
    "list_all2 (ci_match L) (map of_char keyword) mid"
    "pre = [] \<or> \<not> is_word L (last pre)" "post = [] \<or> \<not> is_word L (hd post)"
    unfolding occurs_whole_word_def by blast
  have "match_at L (map of_char keyword) t (length pre)"
    using occurs_imp_match_at[OF d _ _ tab] ne ltr by simp
  moreover have "length pre \<in> set [0..<Suc (length t)]" using d(1) by simp
  ultimately show "re_search_word L keyword t"
    unfolding re_search_word_def list_ex_iff by blast
qed

text \<open>
  Claim C3. For every text that Textract returns, \<^verbatim>\<open>scan_diploma\<close> passes exactly when
  one of the ten keywords occurs in the text as a whole word, case ignored (a keyword
  inside a longer run of word characters does not count); the evidence list is the
  matched keywords in the order of their declaration; and the snippet is the first 200
  characters of the full text. The Unicode tables of the expression engine are assumed to
  class every code point that matches a letter as a word character.
\<close>

theorem scan_diploma_whole_word:
  assumes "\<forall>q e. re_imatch L q e \<longrightarrow> re_word L e"
  shows "verification_passed (scan_diploma L (Inr response)) =
           (\<exists>k\<in>set required_keywords. occurs_whole_word L k (full_text_of response)) \<and>
         confidence_matches (scan_diploma L (Inr response)) =
           Some (filter (\<lambda>k. occurs_whole_word L k (full_text_of response)) required_keywords) \<and>
         extracted_text_snippet (scan_diploma L (Inr response)) =
           Some (take 200 (full_text_of response)) \<and>
         length required_keywords = 10"
proof -
  let ?t = "full_text_of response"
  have eq: "filter (\<lambda>k. re_search_word L k ?t) required_keywords =
            filter (\<lambda>k. occurs_whole_word L k ?t) required_keywords"
    using keywords_are_letters re_search_word_iff[OF _ _ assms] by (intro filter_cong) auto
  have len: "(1 \<le> length (filter (\<lambda>k. occurs_whole_word L k ?t) required_keywords)) =
     (\<exists>k\<in>set required_keywords. occurs_whole_word L k ?t)"
    by (metis One_nat_def Suc_leI filter_empty_conv length_greater_0_conv not_less_eq_eq
        le_zero_eq length_0_conv)
  show ?thesis
    by (simp add: scan_diploma_def count_matches_filter eq len Let_def)
      (simp add: required_keywords_def)
qed

theorem scan_diploma_whole_word_witness:
  "(\<exists>k\<in>set required_keywords.
      occurs_whole_word lib0 k (map of_char ''Jane Roe md, Doctor'')) \<and>
   filter (\<lambda>k. occurs_whole_word lib0 k (map of_char ''Jane Roe md, Doctor'')) required_keywords =
     [''Doctor'', ''MD'']"
proof -
  have tab: "\<forall>q e. re_imatch lib0 q e \<longrightarrow> re_word lib0 e" by (simp add: lib0_def)
  have t: "full_text_of (projr (textract_outcome env_pass)) = map of_char ''Jane Roe md, Doctor''"
    by (simp add: env_pass_def full_text_of_def line_block_def)
  have p: "verification_passed (scan_diploma lib0 (Inr (projr (textract_outcome env_pass)))) = True"
    by code_simp
  have m: "confidence_matches (scan_diploma lib0 (Inr (projr (textract_outcome env_pass)))) =
      Some [''Doctor'', ''MD'']"
    by code_simp
  show ?thesis
    using scan_diploma_whole_word[OF tab, of "projr (textract_outcome env_pass)"] p m
    unfolding t by simp
qed

section \<open>The document handler: what it writes and when it alerts\<close>

text \<open>The \<^verbatim>\<open>try\<close> block of step 4, by cases of the scan and of the two calls.\<close>

lemma tiered_update_calls:
  "\<exists>upd. (snd (snd (tiered_update L env w doctor_id url passed)) = [upd] \<and> is_db_update upd \<and>
           (\<not> passed \<or> doctors_update env \<noteq> None)) \<or>
         (\<exists>pub. snd (snd (tiered_update L env w doctor_id url passed)) =
                  [DbUpdateItem TABLE_NAME ''doctorId'' (JStr doctor_id)
                     (diploma_assignments True url ''PENDING_REVIEW''), pub] \<and>
                is_sns_publish pub \<and> passed \<and> doctors_update env = None)"
  by (auto simp: tiered_update_def Let_def is_db_update_def is_sns_publish_def split: option.splits)

lemma tiered_update_issues:
  "DbUpdateItem TABLE_NAME ''doctorId'' (JStr doctor_id)
     (diploma_assignments passed url (if passed then ''PENDING_REVIEW'' else ''REJECTED_AUTO''))
   \<in> set (snd (snd (tiered_update L env w doctor_id url passed)))"
  by (auto simp: tiered_update_def Let_def split: option.splits)

lemma tiered_update_world:
  "fst (snd (tiered_update L env w doctor_id url passed)) =
     (if doctors_update env = None
      then db_update_item w TABLE_NAME ''doctorId'' (JStr doctor_id)
             (diploma_assignments passed url (if passed then ''PENDING_REVIEW'' else ''REJECTED_AUTO''))
      else w)"
  by (auto simp: tiered_update_def Let_def split: option.splits)

lemma status_of_db_update_item:
  "status_of (db_update_item w table key_field key_value asg) table key_value =
     (case map_of asg ''verificationStatus'' of
        None \<Rightarrow> (case db_items w (table, key_value) of
                    None \<Rightarrow> [key_field \<mapsto> key_value] ''verificationStatus''
                  | Some item \<Rightarrow> item ''verificationStatus'')
      | Some s \<Rightarrow> Some s)"
  by (simp add: status_of_def db_update_item_def map_add_def split: option.splits)

lemma status_of_db_update_item_other:
  "(table', key_value') \<noteq> (table, key_value) \<Longrightarrow>
   status_of (db_update_item w table key_field key_value asg) table' key_value' =
     status_of w table' key_value'"
  by (auto simp: status_of_def db_update_item_def)

lemma record_doctor_event_calls:
  "\<forall>c\<in>set (snd (record_doctor_event L env doctor_id event_type stat)).
     \<not> is_db_update c \<and> \<not> is_sns_publish c"
  by (auto simp: record_doctor_event_def Let_def is_db_update_def is_sns_publish_def
      split: option.splits sum.splits)

text \<open>A run on an event that parses and whose object key is a string.\<close>

lemma diploma_run:
  assumes "parse_s3_event event = Some (s3_bucket, JStr key_str)"
  shows "diploma_lambda_handler L env w event =
     (let scan_passed = verification_passed (scan_diploma L (textract_outcome env));
          doctor_id = doctor_id_of key_str;
          t = tiered_update L env w doctor_id (''s3://'' @ fstr L s3_bucket @ ''/'' @ key_str) scan_passed
      in \<lparr>outcome = Inr \<lparr>statusCode = 200, headers = None,
             body = Dumps (JObj [(''message'', JStr ''Processed''),
                                 (''doctor_id'', JStr doctor_id),
                                 (''scan_passed'', JBool scan_passed),
                                 (''db_status'', JStr (fst t))])\<rparr>,
           world_after = fst (snd t),
           calls = [TextractDetect s3_bucket (JStr key_str)] @
                   snd (record_doctor_event L env doctor_id ''diploma_verification''
                          (if scan_passed then ''passed'' else ''failed'')) @
                   snd (snd t)\<rparr>)"
  using assms by (simp add: diploma_lambda_handler_def Let_def split: prod.splits)

lemma diploma_run_other:
  assumes "\<forall>s3_bucket key_str. parse_s3_event event \<noteq> Some (s3_bucket, JStr key_str)"
  shows "\<forall>c\<in>set (calls (diploma_lambda_handler L env w event)). \<not> is_sns_publish c \<and> \<not> is_db_update c"
  using assms
  by (auto simp: diploma_lambda_handler_def Let_def is_sns_publish_def is_db_update_def
      split: option.splits prod.splits json.splits)

text \<open>
  Claim C9. In every run of the document handler, an alert to the reviewers is published
  only when the scan passed and the record update of the pass branch returned without
  raising, and then the alert is the call right after that update and the last call of the
  run. So there is no alert on the fail branch, and none when the pass-branch update
  raises.
\<close>

theorem alert_only_after_pass_update:
  assumes "SnsPublish topic msg subj \<in> set (calls (diploma_lambda_handler L env w event))"
  shows "verification_passed (scan_diploma L (textract_outcome env)) \<and>
         doctors_update env = None \<and>
         (\<exists>pre doctor_id url.
            calls (diploma_lambda_handler L env w event) =
              pre @ [DbUpdateItem TABLE_NAME ''doctorId'' (JStr doctor_id)
                       (diploma_assignments True url ''PENDING_REVIEW''),
                     SnsPublish topic msg subj] \<and>
            (\<forall>c\<in>set pre. \<not> is_db_update c \<and> \<not> is_sns_publish c))"
proof (cases "\<exists>s3_bucket key_str. parse_s3_event event = Some (s3_bucket, JStr key_str)")
  case False
  then have "\<not> is_sns_publish (SnsPublish topic msg subj)"
    using diploma_run_other[of event L env w] assms by blast
  then show ?thesis by (simp add: is_sns_publish_def)
next
  case True
  then obtain s3_bucket key_str where p: "parse_s3_event event = Some (s3_bucket, JStr key_str)"
    by blast
  let ?passed = "verification_passed (scan_diploma L (textract_outcome env))"
  let ?id = "doctor_id_of key_str"
  let ?url = "''s3://'' @ fstr L s3_bucket @ ''/'' @ key_str"
  let ?rec = "snd (record_doctor_event L env ?id ''diploma_verification''
                (if ?passed then ''passed'' else ''failed''))"
  let ?t = "snd (snd (tiered_update L env w ?id ?url ?passed))"
  have cs: "calls (diploma_lambda_handler L env w event) =
      ([TextractDetect s3_bucket (JStr key_str)] @ ?rec) @ ?t"
    by (simp add: diploma_run[OF p] Let_def)
  have pre: "\<forall>c\<in>set ([TextractDetect s3_bucket (JStr key_str)] @ ?rec).
      \<not> is_db_update c \<and> \<not> is_sns_publish c"
    using record_doctor_event_calls[of L env ?id]
    by (auto simp: is_db_update_def is_sns_publish_def)
  from assms cs pre have mem: "SnsPublish topic msg subj \<in> set ?t"
    by (auto simp: is_sns_publish_def)
  from tiered_update_calls[of L env w ?id ?url ?passed] mem
  have tu: "?t = [DbUpdateItem TABLE_NAME ''doctorId'' (JStr ?id)
                    (diploma_assignments True ?url ''PENDING_REVIEW''),
                  SnsPublish topic msg subj] \<and> ?passed \<and> doctors_update env = None"
    by (auto simp: is_db_update_def is_sns_publish_def)
  from tu have tq: "?t = [DbUpdateItem TABLE_NAME ''doctorId'' (JStr ?id)
                    (diploma_assignments True ?url ''PENDING_REVIEW''),
                  SnsPublish topic msg subj]"
    by (rule conjunct1)
  have "calls (diploma_lambda_handler L env w event) =
      ([TextractDetect s3_bucket (JStr key_str)] @ ?rec) @
      [DbUpdateItem TABLE_NAME ''doctorId'' (JStr ?id)
         (diploma_assignments True ?url ''PENDING_REVIEW''),
       SnsPublish topic msg subj]"
    by (rule trans[OF cs]) (rule arg_cong[OF tq])
  with pre have "\<exists>pre doctor_id url.
            calls (diploma_lambda_handler L env w event) =
              pre @ [DbUpdateItem TABLE_NAME ''doctorId'' (JStr doctor_id)
                       (diploma_assignments True url ''PENDING_REVIEW''),
                     SnsPublish topic msg subj] \<and>
            (\<forall>c\<in>set pre. \<not> is_db_update c \<and> \<not> is_sns_publish c)"
    by (intro exI[of _ "[TextractDetect s3_bucket (JStr key_str)] @ ?rec"] exI[of _ ?id]
        exI[of _ ?url]) simp
  with tu show ?thesis by simp
qed

text \<open>The concrete document runs.\<close>

lemma parse_upload_event:
  "parse_s3_event upload_event =
     Some (JStr ''mediconnect-uploads'', JStr ''private/doctors/d1/diploma.png'')"
  by (simp add: parse_s3_event_def upload_event_def subscript_key_def subscript_0_def)

lemma doctor_id_of_upload: "doctor_id_of ''private/doctors/d1/diploma.png'' = ''d1''"
  by (simp add: doctor_id_of_def)

lemma scan_env_pass: "verification_passed (scan_diploma lib0 (textract_outcome env_pass)) = True"
  by code_simp

lemma scan_env_cat: "verification_passed (scan_diploma lib0 (textract_outcome env_cat)) = False"
  by code_simp

lemma calls_env_pass:
  "calls (diploma_lambda_handler lib0 env_pass world0 upload_event) =
     [TextractDetect (JStr ''mediconnect-uploads'') (JStr ''private/doctors/d1/diploma.png''),
      GetSecretValue ''mediconnect/gcp/bigquery_key'',
      DbUpdateItem ''mediconnect-doctors'' ''doctorId'' (JStr ''d1'')
        [(''isDiplomaAutoVerified'', JBool True),
         (''diplomaUrl'', JStr ''s3://mediconnect-uploads/private/doctors/d1/diploma.png''),
         (''verificationStatus'', JStr ''PENDING_REVIEW'')],
      SnsPublish ''arn:aws:sns:us-east-1:950110266426:mediconnect-ops-alerts''
        ''ACTION REQUIRED: Doctor d1 has uploaded a diploma. AI Check Passed. Please review and manually approve.''
        ''New Doctor Credential Review'']"
  by (simp add: diploma_run[OF parse_upload_event] scan_env_pass doctor_id_of_upload Let_def
      tiered_update_def record_doctor_event_def fstr_def diploma_assignments_def TABLE_NAME_def
      SNS_TOPIC_ARN_def)
    (simp add: env_pass_def SNS_TOPIC_ARN_def TABLE_NAME_def)

theorem alert_only_after_pass_update_witness:
  "verification_passed (scan_diploma lib0 (textract_outcome env_pass)) \<and>
   doctors_update env_pass = None \<and>
   (\<exists>pre doctor_id url.
      calls (diploma_lambda_handler lib0 env_pass world0 upload_event) =
        pre @ [DbUpdateItem TABLE_NAME ''doctorId'' (JStr doctor_id)
                 (diploma_assignments True url ''PENDING_REVIEW''),
               SnsPublish ''arn:aws:sns:us-east-1:950110266426:mediconnect-ops-alerts''
                 ''ACTION REQUIRED: Doctor d1 has uploaded a diploma. AI Check Passed. Please review and manually approve.''
                 ''New Doctor Credential Review''])"
proof -
  have "SnsPublish ''arn:aws:sns:us-east-1:950110266426:mediconnect-ops-alerts''
          ''ACTION REQUIRED: Doctor d1 has uploaded a diploma. AI Check Passed. Please review and manually approve.''
          ''New Doctor Credential Review''
        \<in> set (calls (diploma_lambda_handler lib0 env_pass world0 upload_event))"
    unfolding calls_env_pass by simp
  from alert_only_after_pass_update[OF this] show ?thesis by blast
qed

section \<open>The identity handler: its runs by cases\<close>

lemma finish_simps [simp]:
  "outcome (finish r w cs) = Inr r" "world_after (finish r w cs) = w" "calls (finish r w cs) = cs"
  by (simp_all add: finish_def)

lemma server_error_simps [simp]:
  "outcome (server_error L e w cs) = Inr (reply 500 (Dumps (JStr (''Server Error: '' @ str_exn L e))))"
  "world_after (server_error L e w cs) = w" "calls (server_error L e w cs) = cs"
  by (simp_all add: server_error_def)

lemma statusCode_reply [simp]: "statusCode (reply code b) = code"
  by (simp add: reply_def)

lemma statusCode_verdict [simp]: "statusCode (verdict v c m u) = 200"
  by (simp add: verdict_def)

text \<open>The upload of the ID card touches the image bucket only.\<close>

lemma save_id_card_Inr:
  assumes "save_id_card L env w b k = Inr (w1, c1)"
  shows "db_items w1 = db_items w \<and> (\<forall>c\<in>set c1. \<not> is_db_update c) \<and>
         (no_id_image b \<longrightarrow> w1 = w \<and> c1 = [])"
  using assms
  by (auto simp: save_id_card_def no_id_image_def Let_def is_db_update_def
      split: option.splits if_splits)

lemma save_id_card_Inl:
  assumes "save_id_card L env w b k = Inl early"
  shows "db_items (world_after early) = db_items w \<and> (\<forall>c\<in>set (calls early). \<not> is_db_update c) \<and>
         (\<exists>r. outcome early = Inr r \<and> statusCode r = 500) \<and> \<not> no_id_image b"
  using assms
  by (auto simp: save_id_card_def no_id_image_def Let_def is_db_update_def
      split: option.splits if_splits)

text \<open>Step 4 verifies exactly when the service returns at least one face pair.\<close>

lemma run_rekognition_cases:
  "run_rekognition L answer =
     (case answer of
        Inr [] \<Rightarrow> Some (False, JInt 0, ''Face does not match the provided ID card.'')
      | Inr (match # rest) \<Rightarrow>
          Some (True, JReal (Similarity match),
                ''Identity Verified. Confidence: '' @ fmt_2f L (Similarity match) @ ''%'')
      | Inl e \<Rightarrow> if e = InvalidS3ObjectException then None
                 else Some (False, JInt 0, ''Face comparison failed. Ensure images are clear.''))"
  by (simp add: run_rekognition_def split: sum.splits list.splits)

lemma run_rekognition_verified:
  "run_rekognition L answer = Some (True, confidence, msg) \<Longrightarrow>
   \<exists>match rest. answer = Inr (match # rest)"
  by (auto simp: run_rekognition_def split: sum.splits list.splits if_splits)

lemma update_profile_props:
  "(\<exists>r. outcome (update_profile L env w cs role uid sb conf msg) = Inr r \<and>
        (statusCode r = 200 \<or> statusCode r = 500)) \<and>
   (\<forall>c\<in>set (calls (update_profile L env w cs role uid sb conf msg)).
      \<forall>t kf kv a. c = DbUpdateItem t kf kv a \<longrightarrow>
        c \<in> set cs \<or> (t = table_name_of role \<and> kf = id_key_field_of role \<and> kv = uid \<and>
                       a = identity_assignments (fstr L role @ ''/'' @ fstr L uid @ ''/selfie_verified.jpg'') role))"
  by (auto simp: update_profile_def Let_def split: option.splits sum.splits)

text \<open>A well-formed request reaches the upload of the ID card and then the comparison.\<close>

lemma identity_run:
  assumes "well_formed_request L event b user_id selfie_bytes"
  shows "identity_lambda_handler L env w event =
     (case save_id_card L env w b (id_card_key_of L b user_id) of
        Inl early \<Rightarrow> early
      | Inr (w1, c1) \<Rightarrow>
         (case run_rekognition L (rekognition_compare_faces env w1 (id_card_key_of L b user_id)) of
            None \<Rightarrow>
              finish (reply 404 (Dumps (JStr ''ID Document missing. Please ensure ID is uploaded.'')))
                w1 (c1 @ [RekCompareFaces BUCKET_NAME (id_card_key_of L b user_id) selfie_bytes 80])
          | Some (verification_result, confidence, msg) \<Rightarrow>
              if verification_result
              then update_profile L env w1
                     (c1 @ [RekCompareFaces BUCKET_NAME (id_card_key_of L b user_id) selfie_bytes 80])
                     (user_role_of (raw_role_of b)) user_id selfie_bytes confidence msg
              else finish (verdict False confidence msg JNull) w1
                     (c1 @ [RekCompareFaces BUCKET_NAME (id_card_key_of L b user_id) selfie_bytes 80])))"
  using assms
  by (auto simp: well_formed_request_def identity_lambda_handler_def verify_identity_def
      id_card_key_of_def Let_def split: sum.splits option.splits prod.splits)

text \<open>A request that is not well-formed is answered without any call.\<close>

lemma identity_run_other:
  assumes "\<forall>b user_id selfie_bytes. \<not> well_formed_request L event b user_id selfie_bytes"
  shows "world_after (identity_lambda_handler L env w event) = w \<and>
         calls (identity_lambda_handler L env w event) = []"
  using assms
  by (auto simp: well_formed_request_def identity_lambda_handler_def verify_identity_def
      Let_def split: json.splits sum.splits option.splits)

text \<open>
  The record store changes, and a record update is issued, only after the comparison
  service has returned a face pair.
\<close>

lemma identity_update_needs_match:
  assumes "\<forall>match rest. compare_faces env \<noteq> Inr (match # rest)"
  shows "db_items (world_after (identity_lambda_handler L env w event)) = db_items w \<and>
         (\<forall>c\<in>set (calls (identity_lambda_handler L env w event)). \<not> is_db_update c)"
proof (cases "\<exists>b user_id selfie_bytes. well_formed_request L event b user_id selfie_bytes")
  case False
  then show ?thesis using identity_run_other[of L event env w] by simp
next
  case True
  then obtain b user_id selfie_bytes where wf: "well_formed_request L event b user_id selfie_bytes"
    by blast
  let ?k = "id_card_key_of L b user_id"
  show ?thesis
  proof (cases "save_id_card L env w b ?k")
    case (Inl early)
    then show ?thesis using save_id_card_Inl[OF Inl] by (simp add: identity_run[OF wf])
  next
    case (Inr p)
    obtain w1 c1 where p: "p = (w1, c1)" by (cases p)
    note s = save_id_card_Inr[OF Inr[unfolded p]]
    have nv: "\<forall>confidence msg.
        run_rekognition L (rekognition_compare_faces env w1 ?k) \<noteq> Some (True, confidence, msg)"
      using assms run_rekognition_verified[of L "rekognition_compare_faces env w1 ?k"]
      by (auto simp: rekognition_compare_faces_def split: if_splits)
    show ?thesis
      using s nv
      by (auto simp: identity_run[OF wf] Inr p is_db_update_def split: option.splits)
  qed
qed

section \<open>The identity handler: comparison, avatar and missing reference\<close>

text \<open>The concrete identity requests.\<close>

lemma well_formed_no_role:
  "well_formed_request lib0 request_no_role
     [(''userId'', JStr ''p1''), (''selfieImage'', JStr ''AAAA''), (''idImage'', JStr ''/9j/'')]
     (JStr ''p1'') [0, 0, 0]"
  by (simp add: well_formed_request_def request_no_role_def parse_body_def lib0_def)


lemma well_formed_doctor:
  "well_formed_request lib0 request_doctor
     [(''userId'', JStr ''d1''), (''role'', JStr ''provider''), (''selfieImage'', JStr ''AAAA''),
      (''idImage'', JStr ''/9j/'')]
     (JStr ''d1'') [0, 0, 0]"
  by (simp add: well_formed_request_def request_doctor_def parse_body_def lib0_def)

lemma keys_no_role:
  "id_card_key_of lib0
     [(''userId'', JStr ''p1''), (''selfieImage'', JStr ''AAAA''), (''idImage'', JStr ''/9j/'')]
     (JStr ''p1'') = ''patient/p1/id_card.jpg''"
  "selfie_key_of lib0
     [(''userId'', JStr ''p1''), (''selfieImage'', JStr ''AAAA''), (''idImage'', JStr ''/9j/'')]
     (JStr ''p1'') = ''patient/p1/selfie_verified.jpg''"
  by (simp_all add: id_card_key_of_def selfie_key_of_def raw_role_of_def user_role_of_def fstr_def)

lemma keys_doctor:
  "id_card_key_of lib0
     [(''userId'', JStr ''d1''), (''role'', JStr ''provider''), (''selfieImage'', JStr ''AAAA''),
      (''idImage'', JStr ''/9j/'')]
     (JStr ''d1'') = ''doctor/d1/id_card.jpg''"
  "selfie_key_of lib0
     [(''userId'', JStr ''d1''), (''role'', JStr ''provider''), (''selfieImage'', JStr ''AAAA''),
      (''idImage'', JStr ''/9j/'')]
     (JStr ''d1'') = ''doctor/d1/selfie_verified.jpg''"
  by (simp_all add: id_card_key_of_def selfie_key_of_def raw_role_of_def user_role_of_def fstr_def)

lemma save_id_card_example:
  assumes "put_id_card env = None" "tag_id_card env = None" "map_of b ''idImage'' = Some (JStr ''/9j/'')"
  shows "save_id_card lib0 env world0 b k =
     Inr (world0\<lparr>s3_objects := (s3_objects world0)(k \<mapsto> [255, 216, 255])\<rparr>,
          [S3PutObject BUCKET_NAME k [255, 216, 255] ''image/jpeg'',
           S3PutObjectTagging BUCKET_NAME k [(''auto-delete'', ''true'')]])"
  using assms by (simp add: save_id_card_def Let_def lib0_def)



section \<open>The identity handler: the comparison decides\<close>

lemma answer_of_finish [simp]: "answer_of (finish r w cs) = Some (statusCode r, body r)"
  by (simp add: answer_of_def)

lemma answer_of_server_error [simp]:
  "answer_of (server_error L e w cs) = Some (500, Dumps (JStr (''Server Error: '' @ str_exn L e)))"
  by (simp add: answer_of_def reply_def)

lemma body_reply [simp]: "body (reply code b) = b"
  by (simp add: reply_def)

lemma body_verdict [simp]:
  "body (verdict v c m u) =
     Dumps (JObj [(''verified'', JBool v), (''confidence'', c), (''message'', JStr m), (''photoUrl'', u)])"
  by (simp add: verdict_def)

text \<open>Step 5 by cases of its three calls.\<close>

lemma update_profile_cases:
  "update_profile L env w cs role uid sb conf msg =
     (case put_selfie env of
        Some e \<Rightarrow>
          server_error L e w
            (cs @ [S3PutObject BUCKET_NAME (fstr L role @ ''/'' @ fstr L uid @ ''/selfie_verified.jpg'')
                     sb ''image/jpeg''])
      | None \<Rightarrow>
         (case presigned_url env of
            Inl e \<Rightarrow>
              server_error L e
                (w\<lparr>s3_objects := (s3_objects w)
                    (fstr L role @ ''/'' @ fstr L uid @ ''/selfie_verified.jpg'' \<mapsto> sb)\<rparr>)
                (cs @ [S3PutObject BUCKET_NAME (fstr L role @ ''/'' @ fstr L uid @ ''/selfie_verified.jpg'')
                         sb ''image/jpeg'',
                       S3PresignedUrl BUCKET_NAME (fstr L role @ ''/'' @ fstr L uid @ ''/selfie_verified.jpg'')
                         3600])
          | Inr url \<Rightarrow>
              finish (verdict True conf msg (JStr url))
                (case profile_update env of
                   Some e \<Rightarrow>
                     w\<lparr>s3_objects := (s3_objects w)
                        (fstr L role @ ''/'' @ fstr L uid @ ''/selfie_verified.jpg'' \<mapsto> sb)\<rparr>
                 | None \<Rightarrow>
                     db_update_item
                       (w\<lparr>s3_objects := (s3_objects w)
                          (fstr L role @ ''/'' @ fstr L uid @ ''/selfie_verified.jpg'' \<mapsto> sb)\<rparr>)
                       (table_name_of role) (id_key_field_of role) uid
                       (identity_assignments (fstr L role @ ''/'' @ fstr L uid @ ''/selfie_verified.jpg'') role))
                (cs @ [S3PutObject BUCKET_NAME (fstr L role @ ''/'' @ fstr L uid @ ''/selfie_verified.jpg'')
                         sb ''image/jpeg'',
                       S3PresignedUrl BUCKET_NAME (fstr L role @ ''/'' @ fstr L uid @ ''/selfie_verified.jpg'')
                         3600,
                       DbUpdateItem (table_name_of role) (id_key_field_of role) uid
                         (identity_assignments (fstr L role @ ''/'' @ fstr L uid @ ''/selfie_verified.jpg'')
                            role)])))"
  by (simp add: update_profile_def Let_def split: option.splits sum.splits)

text \<open>A well-formed request whose reference image is in the store, by the service's answer.\<close>

lemma compared_run:
  assumes wf: "well_formed_request L event b user_id selfie_bytes"
    and saved: "save_id_card L env w b (id_card_key_of L b user_id) = Inr (w1, c1)"
    and ref: "s3_objects w1 (id_card_key_of L b user_id) \<noteq> None"
    and ans: "compare_faces env = Inr face_matches"
  shows "identity_lambda_handler L env w event =
     (case face_matches of
        [] \<Rightarrow>
          finish (verdict False (JInt 0) ''Face does not match the provided ID card.'' JNull) w1
            (c1 @ [RekCompareFaces BUCKET_NAME (id_card_key_of L b user_id) selfie_bytes 80])
      | match # rest \<Rightarrow>
          update_profile L env w1
            (c1 @ [RekCompareFaces BUCKET_NAME (id_card_key_of L b user_id) selfie_bytes 80])
            (user_role_of (raw_role_of b)) user_id selfie_bytes (JReal (Similarity match))
            (''Identity Verified. Confidence: '' @ fmt_2f L (Similarity match) @ ''%''))"
proof -
  have a: "rekognition_compare_faces env w1 (id_card_key_of L b user_id) = Inr face_matches"
    using ref ans by (simp add: rekognition_compare_faces_def)
  show ?thesis
    by (cases face_matches) (simp_all add: identity_run[OF wf] saved a run_rekognition_def)
qed


text \<open>The example requests that carry an ID image, run in the example world.\<close>

lemma example_run:
  assumes wf: "well_formed_request lib0 event b user_id sb"
    and img: "map_of b ''idImage'' = Some (JStr ''/9j/'')"
    and env: "put_id_card env = None" "tag_id_card env = None" "compare_faces env = Inr face_matches"
  shows "identity_lambda_handler lib0 env world0 event =
     (case face_matches of
        [] \<Rightarrow>
          finish (verdict False (JInt 0) ''Face does not match the provided ID card.'' JNull)
            (world0\<lparr>s3_objects := (s3_objects world0)(id_card_key_of lib0 b user_id \<mapsto> [255, 216, 255])\<rparr>)
            [S3PutObject BUCKET_NAME (id_card_key_of lib0 b user_id) [255, 216, 255] ''image/jpeg'',
             S3PutObjectTagging BUCKET_NAME (id_card_key_of lib0 b user_id) [(''auto-delete'', ''true'')],
             RekCompareFaces BUCKET_NAME (id_card_key_of lib0 b user_id) sb 80]
      | match # rest \<Rightarrow>
          update_profile lib0 env
            (world0\<lparr>s3_objects := (s3_objects world0)(id_card_key_of lib0 b user_id \<mapsto> [255, 216, 255])\<rparr>)
            [S3PutObject BUCKET_NAME (id_card_key_of lib0 b user_id) [255, 216, 255] ''image/jpeg'',
             S3PutObjectTagging BUCKET_NAME (id_card_key_of lib0 b user_id) [(''auto-delete'', ''true'')],
             RekCompareFaces BUCKET_NAME (id_card_key_of lib0 b user_id) sb 80]
            (user_role_of (raw_role_of b)) user_id sb (JReal (Similarity match))
            (''Identity Verified. Confidence: '' @ fmt_2f lib0 (Similarity match) @ ''%''))"
proof -
  have ref: "s3_objects
      (world0\<lparr>s3_objects := (s3_objects world0)(id_card_key_of lib0 b user_id \<mapsto> [255, 216, 255])\<rparr>)
      (id_card_key_of lib0 b user_id) \<noteq> None"
    by simp
  from compared_run[OF wf save_id_card_example[OF env(1,2) img] ref env(3)]
  show ?thesis by (cases face_matches) simp_all
qed

lemma env_match_calls:
  "put_id_card env_match = None" "tag_id_card env_match = None"
  "compare_faces env_match = Inr [\<lparr>Similarity = 92.5\<rparr>]" "put_selfie env_match = None"
  "presigned_url env_match = Inr ''https://signed.example/selfie''" "profile_update env_match = None"
  by (simp_all add: env_match_def)



lemma id_image_no_role:
  "map_of [(''userId'', JStr ''p1''), (''selfieImage'', JStr ''AAAA''), (''idImage'', JStr ''/9j/'')]
     ''idImage'' = Some (JStr ''/9j/'')"
  by simp



section \<open>The identity handler: a verified selfie\<close>








section \<open>The identity handler: input checks and the role\<close>

text \<open>A request that is no preflight and whose body is a dict runs the body of the \<^verbatim>\<open>try\<close>.\<close>

lemma identity_checks:
  assumes "map_of ev ''httpMethod'' \<noteq> Some (JStr ''OPTIONS'')" "parse_body L ev = Inr (JObj b)"
  shows "identity_lambda_handler L env w (JObj ev) = verify_identity L env w b"
  using assms by (simp add: identity_lambda_handler_def)

lemma absent_role_runs_as_patient:
  assumes n: "map_of b ''role'' = None"
  shows "verify_identity L env w b = verify_identity L env w ((''role'', JStr ''patient'') # b)"
proof -
  have r: "raw_role_of ((''role'', JStr ''patient'') # b) = raw_role_of b"
    by (simp add: raw_role_of_def n)
  have s: "save_id_card L env w ((''role'', JStr ''patient'') # b) k = save_id_card L env w b k" for k
    by (simp add: save_id_card_def)
  have m: "map_of ((''role'', JStr ''patient'') # b) ''userId'' = map_of b ''userId''"
    "map_of ((''role'', JStr ''patient'') # b) ''selfieImage'' = map_of b ''selfieImage''"
    by simp_all
  show ?thesis
    unfolding verify_identity_def r s m ..
qed

text \<open>
  Claim C7, as amended. A request that is no preflight and whose body is a dict is
  answered with status 400, with no call issued and the state as before, when
  \<^verbatim>\<open>userId\<close> is absent or falsy, when \<^verbatim>\<open>selfieImage\<close> is absent, or when decoding
  \<^verbatim>\<open>selfieImage\<close> raises. An absent \<^verbatim>\<open>role\<close> is no reason for a rejection: the request
  runs exactly as the same request with the role \<^verbatim>\<open>patient\<close>.
\<close>

theorem invalid_request_rejected_before_any_call:
  assumes np: "map_of ev ''httpMethod'' \<noteq> Some (JStr ''OPTIONS'')"
    and pb: "parse_body L ev = Inr (JObj b)"
  shows "((case map_of b ''userId'' of None \<Rightarrow> True | Some u \<Rightarrow> \<not> truthy u) \<longrightarrow>
            answer_of (identity_lambda_handler L env w (JObj ev)) =
              Some (400, Dumps (JStr ''Missing userId'')) \<and>
            calls (identity_lambda_handler L env w (JObj ev)) = [] \<and>
            world_after (identity_lambda_handler L env w (JObj ev)) = w) \<and>
         ((\<exists>u. map_of b ''userId'' = Some u \<and> truthy u) \<and> map_of b ''selfieImage'' = None \<longrightarrow>
            answer_of (identity_lambda_handler L env w (JObj ev)) =
              Some (400, Dumps (JStr ''No selfieImage provided'')) \<and>
            calls (identity_lambda_handler L env w (JObj ev)) = [] \<and>
            world_after (identity_lambda_handler L env w (JObj ev)) = w) \<and>
         ((\<exists>u. map_of b ''userId'' = Some u \<and> truthy u) \<and>
          (\<exists>s. map_of b ''selfieImage'' = Some s \<and> b64decode L s = None) \<longrightarrow>
            answer_of (identity_lambda_handler L env w (JObj ev)) =
              Some (400, Dumps (JStr ''Invalid Selfie Base64'')) \<and>
            calls (identity_lambda_handler L env w (JObj ev)) = [] \<and>
            world_after (identity_lambda_handler L env w (JObj ev)) = w) \<and>
         (\<forall>ev'. map_of b ''role'' = None \<and>
                map_of ev' ''httpMethod'' \<noteq> Some (JStr ''OPTIONS'') \<and>
                parse_body L ev' = Inr (JObj ((''role'', JStr ''patient'') # b)) \<longrightarrow>
                identity_lambda_handler L env w (JObj ev') = identity_lambda_handler L env w (JObj ev))"
proof -
  note h = identity_checks[OF np pb]
  have one: "(case map_of b ''userId'' of None \<Rightarrow> True | Some u \<Rightarrow> \<not> truthy u) \<longrightarrow>
      answer_of (identity_lambda_handler L env w (JObj ev)) =
        Some (400, Dumps (JStr ''Missing userId'')) \<and>
      calls (identity_lambda_handler L env w (JObj ev)) = [] \<and>
      world_after (identity_lambda_handler L env w (JObj ev)) = w"
    by (auto simp: h verify_identity_def split: option.splits)
  have two: "(\<exists>u. map_of b ''userId'' = Some u \<and> truthy u) \<and> map_of b ''selfieImage'' = None \<longrightarrow>
      answer_of (identity_lambda_handler L env w (JObj ev)) =
        Some (400, Dumps (JStr ''No selfieImage provided'')) \<and>
      calls (identity_lambda_handler L env w (JObj ev)) = [] \<and>
      world_after (identity_lambda_handler L env w (JObj ev)) = w"
    by (auto simp: h verify_identity_def Let_def)
  have three: "(\<exists>u. map_of b ''userId'' = Some u \<and> truthy u) \<and>
      (\<exists>s. map_of b ''selfieImage'' = Some s \<and> b64decode L s = None) \<longrightarrow>
      answer_of (identity_lambda_handler L env w (JObj ev)) =
        Some (400, Dumps (JStr ''Invalid Selfie Base64'')) \<and>
      calls (identity_lambda_handler L env w (JObj ev)) = [] \<and>
      world_after (identity_lambda_handler L env w (JObj ev)) = w"
    by (auto simp: h verify_identity_def Let_def)
  have four: "\<forall>ev'. map_of b ''role'' = None \<and>
      map_of ev' ''httpMethod'' \<noteq> Some (JStr ''OPTIONS'') \<and>
      parse_body L ev' = Inr (JObj ((''role'', JStr ''patient'') # b)) \<longrightarrow>
      identity_lambda_handler L env w (JObj ev') = identity_lambda_handler L env w (JObj ev)"
    using absent_role_runs_as_patient[of b L env w] by (auto simp: h identity_checks)
  from one two three four show ?thesis by (intro conjI)
qed

theorem invalid_request_rejected_before_any_call_witness:
  "answer_of (identity_lambda_handler lib0 env_match world0
     (JObj [(''httpMethod'', JStr ''POST''),
            (''body'', JObj [(''userId'', JStr ''p1''), (''role'', JStr ''patient''),
                             (''selfieImage'', JStr ''A'')])])) =
     Some (400, Dumps (JStr ''Invalid Selfie Base64'')) \<and>
   calls (identity_lambda_handler lib0 env_match world0
     (JObj [(''httpMethod'', JStr ''POST''),
            (''body'', JObj [(''userId'', JStr ''p1''), (''role'', JStr ''patient''),
                             (''selfieImage'', JStr ''A'')])])) = [] \<and>
   identity_lambda_handler lib0 env_match world0 request_patient =
     identity_lambda_handler lib0 env_match world0 request_no_role"
proof -
  let ?ev = "[(''httpMethod'', JStr ''POST''),
            (''body'', JObj [(''userId'', JStr ''p1''), (''role'', JStr ''patient''),
                             (''selfieImage'', JStr ''A'')])]"
  have np: "map_of ?ev ''httpMethod'' \<noteq> Some (JStr ''OPTIONS'')" by simp
  have pb: "parse_body lib0 ?ev =
      Inr (JObj [(''userId'', JStr ''p1''), (''role'', JStr ''patient''), (''selfieImage'', JStr ''A'')])"
    by (simp add: parse_body_def)
  have dec: "b64decode lib0 (JStr ''A'') = None" by (simp add: lib0_def)
  from invalid_request_rejected_before_any_call[OF np pb, of env_match world0] dec
  have a: "answer_of (identity_lambda_handler lib0 env_match world0 (JObj ?ev)) =
      Some (400, Dumps (JStr ''Invalid Selfie Base64'')) \<and>
      calls (identity_lambda_handler lib0 env_match world0 (JObj ?ev)) = []"
    by simp
  let ?en = "[(''httpMethod'', JStr ''POST''),
           (''body'', JObj [(''userId'', JStr ''p1''), (''selfieImage'', JStr ''AAAA''),
                            (''idImage'', JStr ''/9j/'')])]"
  let ?ep = "[(''httpMethod'', JStr ''POST''),
           (''body'', JObj [(''role'', JStr ''patient''), (''userId'', JStr ''p1''),
                            (''selfieImage'', JStr ''AAAA''), (''idImage'', JStr ''/9j/'')])]"
  have npn: "map_of ?en ''httpMethod'' \<noteq> Some (JStr ''OPTIONS'')" by simp
  have pbn: "parse_body lib0 ?en =
      Inr (JObj [(''userId'', JStr ''p1''), (''selfieImage'', JStr ''AAAA''), (''idImage'', JStr ''/9j/'')])"
    by (simp add: parse_body_def)
  have c: "map_of [(''userId'', JStr ''p1''), (''selfieImage'', JStr ''AAAA''), (''idImage'', JStr ''/9j/'')]
      ''role'' = None \<and>
      map_of ?ep ''httpMethod'' \<noteq> Some (JStr ''OPTIONS'') \<and>
      parse_body lib0 ?ep =
        Inr (JObj ((''role'', JStr ''patient'') #
          [(''userId'', JStr ''p1''), (''selfieImage'', JStr ''AAAA''), (''idImage'', JStr ''/9j/'')]))"
    by (simp add: parse_body_def)
  from invalid_request_rejected_before_any_call[OF npn pbn, of env_match world0] c
  have b: "identity_lambda_handler lib0 env_match world0 (JObj ?ep) =
      identity_lambda_handler lib0 env_match world0 (JObj ?en)"
    by blast
  from a b show ?thesis by (simp add: request_patient_def request_no_role_def)
qed

text \<open>
  The claim as it is written fails at four requests. One without \<^verbatim>\<open>role\<close> runs as a
  patient's request to a verified answer of status 200, after six calls. One whose selfie
  is \<^verbatim>\<open>"!!!!"\<close>, which is no base64 text, is not rejected either: the decoder returns the
  empty byte string, the ID card is stored and the comparison is called. A preflight
  carries none of the fields and is answered with status 200. A body that is a list is
  answered with status 500.
\<close>

theorem missing_role_or_bad_selfie_not_rejected:
  "answer_of (identity_lambda_handler lib0 env_match world0 request_no_role) =
     Some (200, Dumps (JObj [(''verified'', JBool True), (''confidence'', JReal 92.5),
                             (''message'', JStr ''Identity Verified. Confidence: 92.50%''),
                             (''photoUrl'', JStr ''https://signed.example/selfie'')])) \<and>
   calls (identity_lambda_handler lib0 env_match world0 request_no_role) =
     [S3PutObject ''mediconnect-identity-verification'' ''patient/p1/id_card.jpg'' [255, 216, 255]
        ''image/jpeg'',
      S3PutObjectTagging ''mediconnect-identity-verification'' ''patient/p1/id_card.jpg''
        [(''auto-delete'', ''true'')],
      RekCompareFaces ''mediconnect-identity-verification'' ''patient/p1/id_card.jpg'' [0, 0, 0] 80,
      S3PutObject ''mediconnect-identity-verification'' ''patient/p1/selfie_verified.jpg'' [0, 0, 0]
        ''image/jpeg'',
      S3PresignedUrl ''mediconnect-identity-verification'' ''patient/p1/selfie_verified.jpg'' 3600,
      DbUpdateItem ''mediconnect-patients'' ''patientId'' (JStr ''p1'')
        [(''avatar'', JStr ''patient/p1/selfie_verified.jpg''),
         (''isIdentityVerified'', JBool True),
         (''verificationStatus'', JStr ''VERIFIED'')]] \<and>
   answer_of (identity_lambda_handler lib0 env_compare_fails world0 request_bad_selfie) =
     Some (200, Dumps (JObj [(''verified'', JBool False), (''confidence'', JInt 0),
                             (''message'', JStr ''Face comparison failed. Ensure images are clear.''),
                             (''photoUrl'', JNull)])) \<and>
   calls (identity_lambda_handler lib0 env_compare_fails world0 request_bad_selfie) =
     [S3PutObject ''mediconnect-identity-verification'' ''patient/p1/id_card.jpg'' [255, 216, 255]
        ''image/jpeg'',
      S3PutObjectTagging ''mediconnect-identity-verification'' ''patient/p1/id_card.jpg''
        [(''auto-delete'', ''true'')],
      RekCompareFaces ''mediconnect-identity-verification'' ''patient/p1/id_card.jpg'' [] 80] \<and>
   answer_of (identity_lambda_handler lib0 env_match world0 request_preflight) = Some (200, Raw []) \<and>
   answer_of (identity_lambda_handler lib0 env_match world0 request_list_body) =
     Some (500, Dumps (JStr ''Server Error: error''))"
proof -
  let ?bn = "[(''userId'', JStr ''p1''), (''selfieImage'', JStr ''AAAA''), (''idImage'', JStr ''/9j/'')]"
  let ?bb = "[(''userId'', JStr ''p1''), (''role'', JStr ''patient''), (''selfieImage'', JStr ''!!!!''),
      (''idImage'', JStr ''/9j/'')]"
  have f: "fmt_2f lib0 92.5 = ''92.50''" "str_exn lib0 AttributeError = ''error''"
    by (simp_all add: lib0_def)
  have rn: "user_role_of (raw_role_of ?bn) = JStr ''patient''"
    by (simp add: raw_role_of_def user_role_of_def)
  have one: "answer_of (identity_lambda_handler lib0 env_match world0 request_no_role) =
     Some (200, Dumps (JObj [(''verified'', JBool True), (''confidence'', JReal 92.5),
                             (''message'', JStr ''Identity Verified. Confidence: 92.50%''),
                             (''photoUrl'', JStr ''https://signed.example/selfie'')]))"
    using f
    by (simp add: example_run[OF well_formed_no_role id_image_no_role env_match_calls(1,2,3)]
        update_profile_cases env_match_calls)
  have two: "calls (identity_lambda_handler lib0 env_match world0 request_no_role) =
     [S3PutObject ''mediconnect-identity-verification'' ''patient/p1/id_card.jpg'' [255, 216, 255]
        ''image/jpeg'',
      S3PutObjectTagging ''mediconnect-identity-verification'' ''patient/p1/id_card.jpg''
        [(''auto-delete'', ''true'')],
      RekCompareFaces ''mediconnect-identity-verification'' ''patient/p1/id_card.jpg'' [0, 0, 0] 80,
      S3PutObject ''mediconnect-identity-verification'' ''patient/p1/selfie_verified.jpg'' [0, 0, 0]
        ''image/jpeg'',
      S3PresignedUrl ''mediconnect-identity-verification'' ''patient/p1/selfie_verified.jpg'' 3600,
      DbUpdateItem ''mediconnect-patients'' ''patientId'' (JStr ''p1'')
        [(''avatar'', JStr ''patient/p1/selfie_verified.jpg''),
         (''isIdentityVerified'', JBool True),
         (''verificationStatus'', JStr ''VERIFIED'')]]"
    by (simp add: example_run[OF well_formed_no_role id_image_no_role env_match_calls(1,2,3)]
        update_profile_cases env_match_calls keys_no_role rn fstr_def BUCKET_NAME_def
        table_name_of_def id_key_field_of_def identity_assignments_def)
  have wfb: "well_formed_request lib0 request_bad_selfie ?bb (JStr ''p1'') []"
    by (simp add: well_formed_request_def request_bad_selfie_def parse_body_def lib0_def)
  have kb: "id_card_key_of lib0 ?bb (JStr ''p1'') = ''patient/p1/id_card.jpg''"
    by (simp add: id_card_key_of_def raw_role_of_def user_role_of_def fstr_def)
  have ec: "put_id_card env_compare_fails = None" "tag_id_card env_compare_fails = None"
    "compare_faces env_compare_fails = Inl (ServiceError ''InvalidParameterException'')"
    by (simp_all add: env_compare_fails_def env_match_def)
  have ib: "map_of ?bb ''idImage'' = Some (JStr ''/9j/'')" by simp
  have runb: "identity_lambda_handler lib0 env_compare_fails world0 request_bad_selfie =
      finish (verdict False (JInt 0) ''Face comparison failed. Ensure images are clear.'' JNull)
        (world0\<lparr>s3_objects := (s3_objects world0)(''patient/p1/id_card.jpg'' \<mapsto> [255, 216, 255])\<rparr>)
        [S3PutObject BUCKET_NAME ''patient/p1/id_card.jpg'' [255, 216, 255] ''image/jpeg'',
         S3PutObjectTagging BUCKET_NAME ''patient/p1/id_card.jpg'' [(''auto-delete'', ''true'')],
         RekCompareFaces BUCKET_NAME ''patient/p1/id_card.jpg'' [] 80]"
    by (simp add: identity_run[OF wfb] kb save_id_card_example[OF ec(1,2) ib]
        rekognition_compare_faces_def run_rekognition_def ec)
  have three: "answer_of (identity_lambda_handler lib0 env_compare_fails world0 request_bad_selfie) =
     Some (200, Dumps (JObj [(''verified'', JBool False), (''confidence'', JInt 0),
                             (''message'', JStr ''Face comparison failed. Ensure images are clear.''),
                             (''photoUrl'', JNull)]))"
    by (simp add: runb)
  have four: "calls (identity_lambda_handler lib0 env_compare_fails world0 request_bad_selfie) =
     [S3PutObject ''mediconnect-identity-verification'' ''patient/p1/id_card.jpg'' [255, 216, 255]
        ''image/jpeg'',
      S3PutObjectTagging ''mediconnect-identity-verification'' ''patient/p1/id_card.jpg''
        [(''auto-delete'', ''true'')],
      RekCompareFaces ''mediconnect-identity-verification'' ''patient/p1/id_card.jpg'' [] 80]"
    by (simp add: runb BUCKET_NAME_def)
  have five: "answer_of (identity_lambda_handler lib0 env_match world0 request_preflight) =
      Some (200, Raw [])"
    by (simp add: identity_lambda_handler_def request_preflight_def)
  have six: "answer_of (identity_lambda_handler lib0 env_match world0 request_list_body) =
     Some (500, Dumps (JStr ''Server Error: error''))"
    using f by (simp add: identity_lambda_handler_def request_list_body_def parse_body_def)
  from one two three four five six show ?thesis by (intro conjI)
qed

end
